theory Spec2Isabelle
  imports Main "HOL-Library.Sublist"
begin

section \<open>Python values\<close>

text \<open>
  \<open>weather.py\<close> works on whatever \<open>response.json()\<close> decodes: \<open>None\<close>, booleans,
  integers, floats, strings, lists and dicts, nested at will. A float is identified by
  its \<open>repr\<close>, the shortest decimal text that reads back as the same float; the program
  never computes with floats, it prints them and tests them for zero. A string is a list
  of characters, one per code point (code points below 256). A dict is the list of its
  items in insertion order; a Python dict holds every key once.
\<close>

datatype pyfloat = PyFloat (float_repr: string)

datatype json =
    JNull
  | JBool bool
  | JInt int
  | JFloat pyfloat
  | JStr string
  | JList "json list"
  | JDict "(string \<times> json) list"

text \<open>
  The exceptions that can occur. \<open>CancelledError\<close> derives from \<open>BaseException\<close> only;
  all the others derive from \<open>Exception\<close>.
\<close>

datatype exn =
    KeyError
  | TypeError
  | AttributeError
  | TimeoutException
  | ConnectError
  | HTTPStatusError
  | JSONDecodeError
  | CancelledError

fun is_Exception :: "exn \<Rightarrow> bool" where
  "is_Exception CancelledError = False"
| "is_Exception _ = True"

text \<open>Sequencing of computations that may raise: the first exception ends the run.\<close>

fun bindE :: "exn + 'a \<Rightarrow> ('a \<Rightarrow> exn + 'b) \<Rightarrow> exn + 'b" where
  "bindE (Inl e) f = Inl e"
| "bindE (Inr x) f = f x"

subsection \<open>Truth value, membership, subscript, slice, iteration\<close>

definition float_is_zero :: "pyfloat \<Rightarrow> bool" where
  "float_is_zero f = (float_repr f = ''0.0'' \<or> float_repr f = ''-0.0'')"

text \<open>\<open>bool(x)\<close>; the source's \<open>not x\<close> is \<open>\<not> truthy x\<close>.\<close>

fun truthy :: "json \<Rightarrow> bool" where
  "truthy JNull = False"
| "truthy (JBool b) = b"
| "truthy (JInt i) = (i \<noteq> 0)"
| "truthy (JFloat f) = (\<not> float_is_zero f)"
| "truthy (JStr s) = (s \<noteq> [])"
| "truthy (JList xs) = (xs \<noteq> [])"
| "truthy (JDict kvs) = (kvs \<noteq> [])"

text \<open>\<open>k in x\<close> for a string \<open>k\<close>: a key of a dict, an element of a list, a substring of a
  string; anything else is not iterable.\<close>

fun py_in :: "string \<Rightarrow> json \<Rightarrow> exn + bool" where
  "py_in k (JDict kvs) = Inr (map_of kvs k \<noteq> None)"
| "py_in k (JList xs) = Inr (List.member xs (JStr k))"
| "py_in k (JStr s) = Inr (sublist k s)"
| "py_in k _ = Inl TypeError"

text \<open>\<open>x[k]\<close> for a string \<open>k\<close>: only a dict can be subscripted by a string.\<close>

fun subscript :: "json \<Rightarrow> string \<Rightarrow> exn + json" where
  "subscript (JDict kvs) k = (case map_of kvs k of None \<Rightarrow> Inl KeyError | Some v \<Rightarrow> Inr v)"
| "subscript _ k = Inl TypeError"

text \<open>\<open>x.get(k, d)\<close>: only a dict has the method.\<close>

fun py_get :: "json \<Rightarrow> string \<Rightarrow> json \<Rightarrow> exn + json" where
  "py_get (JDict kvs) k d = Inr (case map_of kvs k of None \<Rightarrow> d | Some v \<Rightarrow> v)"
| "py_get _ k d = Inl AttributeError"

text \<open>\<open>x[:n]\<close>: lists and strings can be sliced; a dict cannot (a slice is not hashable
  before Python 3.12, which raises \<open>TypeError\<close>).\<close>

fun slice_to :: "json \<Rightarrow> nat \<Rightarrow> exn + json" where
  "slice_to (JList xs) n = Inr (JList (take n xs))"
| "slice_to (JStr s) n = Inr (JStr (take n s))"
| "slice_to _ n = Inl TypeError"

text \<open>The elements a \<open>for\<close> loop or a comprehension runs over.\<close>

fun py_iter :: "json \<Rightarrow> exn + json list" where
  "py_iter (JList xs) = Inr xs"
| "py_iter (JDict kvs) = Inr (map (\<lambda>kv. JStr (fst kv)) kvs)"
| "py_iter (JStr s) = Inr (map (\<lambda>c. JStr [c]) s)"
| "py_iter _ = Inl TypeError"

subsection \<open>Text of a value\<close>

text \<open>\<open>sep.join(xs)\<close>.\<close>

fun str_join :: "string \<Rightarrow> string list \<Rightarrow> string" where
  "str_join sep [] = []"
| "str_join sep [x] = x"
| "str_join sep (x # y # ys) = x @ sep @ str_join sep (y # ys)"

definition digit :: "nat \<Rightarrow> char" where
  "digit n = ''0123456789abcdef'' ! n"

fun nat_str :: "nat \<Rightarrow> string" where
  "nat_str n = (if n < 10 then [digit n] else nat_str (n div 10) @ [digit (n mod 10)])"

declare nat_str.simps [simp del]

definition int_str :: "int \<Rightarrow> string" where
  "int_str i = (if i < 0 then CHR ''-'' # nat_str (nat (- i)) else nat_str (nat i))"

text \<open>\<open>repr\<close> of a string: quoted with \<open>'\<close>, or with \<open>"\<close> when the text has a \<open>'\<close> and
  no \<open>"\<close>; the quote and the backslash escaped, control and non-printable characters
  written as escapes.\<close>

definition printable :: "char \<Rightarrow> bool" where
  "printable c = (let n = (of_char c :: nat) in (32 \<le> n \<and> n < 127) \<or> (161 \<le> n \<and> n \<noteq> 173))"

definition repr_char :: "char \<Rightarrow> char \<Rightarrow> string" where
  "repr_char q c =
     (if c = q \<or> c = CHR 0x5C then [CHR 0x5C, c]
      else if c = CHR 0x09 then [CHR 0x5C, CHR ''t'']
      else if c = CHR ''\<newline>'' then [CHR 0x5C, CHR ''n'']
      else if c = CHR 0x0D then [CHR 0x5C, CHR ''r'']
      else if printable c then [c]
      else [CHR 0x5C, CHR ''x'', digit (of_char c div 16), digit (of_char c mod 16)])"

definition str_repr :: "string \<Rightarrow> string" where
  "str_repr s =
     (let q = (if CHR 0x27 \<in> set s \<and> CHR 0x22 \<notin> set s then CHR 0x22 else CHR 0x27)
      in q # concat (map (repr_char q) s) @ [q])"

fun py_repr :: "json \<Rightarrow> string" where
  "py_repr JNull = ''None''"
| "py_repr (JBool b) = (if b then ''True'' else ''False'')"
| "py_repr (JInt i) = int_str i"
| "py_repr (JFloat f) = float_repr f"
| "py_repr (JStr s) = str_repr s"
| "py_repr (JList xs) = ''['' @ str_join '', '' (map py_repr xs) @ '']''"
| "py_repr (JDict kvs) =
     ''{'' @ str_join '', '' (map (\<lambda>kv. str_repr (fst kv) @ '': '' @ py_repr (snd kv)) kvs) @ ''}''"

text \<open>What a replacement field \<open>{x}\<close> of an f-string puts into the text: a string as it
  is, any other value as its \<open>repr\<close>.\<close>

fun py_str :: "json \<Rightarrow> string" where
  "py_str (JStr s) = s"
| "py_str v = py_repr v"

section \<open>The HTTP client\<close>

text \<open>
  A call \<open>client.get(url, headers=headers, timeout=35)\<close> either raises or returns a
  response, of which the program reads the status code and the decoded body (\<open>None\<close> in
  the model when the body is not JSON). What the network answers may depend on the calls
  made before, so the client is given the world: the list of the calls made so far.
\<close>

record request =
  req_url :: json
  req_headers :: "(string \<times> string) list"
  req_timeout :: nat

record response =
  status_code :: nat
  body :: "json option"

type_synonym world = "request list"

type_synonym client = "world \<Rightarrow> request \<Rightarrow> exn + response"

text \<open>\<open>response.raise_for_status()\<close> raises unless the status code is 200 to 299 (as
  the comment at the call says); \<open>response.json()\<close> raises when the body does not decode.\<close>

definition raise_for_status :: "response \<Rightarrow> exn + unit" where
  "raise_for_status r =
     (if 200 \<le> status_code r \<and> status_code r \<le> 299 then Inr () else Inl HTTPStatusError)"

definition response_json :: "response \<Rightarrow> exn + json" where
  "response_json r = (case body r of None \<Rightarrow> Inl JSONDecodeError | Some v \<Rightarrow> Inr v)"

section \<open>weather.py\<close>

definition NWS_API_BASE :: string where
  "NWS_API_BASE = ''https://api.weather.gov''"

definition USER_AGENT :: string where
  "USER_AGENT = ''weather-app/1.0''"

text \<open>
  \<open>get_weather_data\<close>: one call of the client inside \<open>try\<close>; \<open>except Exception\<close> turns
  every exception that derives from \<open>Exception\<close> into \<open>None\<close>, and lets any other pass.
\<close>

definition get_weather_data :: "client \<Rightarrow> json \<Rightarrow> world \<Rightarrow> (exn + json) \<times> world" where
  "get_weather_data client url w =
     (let headers = [(''User-Agent'', USER_AGENT), (''Accept'', ''application/geo+json'')];
          req = \<lparr>req_url = url, req_headers = headers, req_timeout = 35\<rparr>;
          attempt = bindE (client w req) (\<lambda>response.
                    bindE (raise_for_status response) (\<lambda>_.
                    response_json response))
      in (case attempt of
            Inl e \<Rightarrow> if is_Exception e then Inr JNull else Inl e
          | Inr v \<Rightarrow> Inr v,
          w @ [req]))"

definition format_alert :: "json \<Rightarrow> exn + string" where
  "format_alert feature =
     bindE (subscript feature ''properties'') (\<lambda>properties.
     bindE (py_get properties ''event'' (JStr ''Unknown'')) (\<lambda>event.
     bindE (py_get properties ''areaDesc'' (JStr ''Unknown'')) (\<lambda>areaDesc.
     bindE (py_get properties ''severity'' (JStr ''Unknown'')) (\<lambda>severity.
     bindE (py_get properties ''description'' (JStr ''No Description'')) (\<lambda>description.
     bindE (py_get properties ''instruction'' (JStr ''No Specific Instruction'')) (\<lambda>instruction.
     Inr (''\<newline>Event: '' @ py_str event
          @ ''\<newline>Area: '' @ py_str areaDesc
          @ ''\<newline>Severity: '' @ py_str severity
          @ ''\<newline>Description: '' @ py_str description
          @ ''\<newline>Instruction: '' @ py_str instruction
          @ ''\<newline>'')))))))"

text \<open>A list comprehension \<open>[f(x) for x in xs]\<close>: the first exception ends it.\<close>

fun mapE :: "('a \<Rightarrow> exn + 'b) \<Rightarrow> 'a list \<Rightarrow> exn + 'b list" where
  "mapE f [] = Inr []"
| "mapE f (x # xs) = bindE (f x) (\<lambda>y. bindE (mapE f xs) (\<lambda>ys. Inr (y # ys)))"

definition get_alerts :: "client \<Rightarrow> string \<Rightarrow> world \<Rightarrow> (exn + string) \<times> world" where
  "get_alerts client state w =
     (let url = NWS_API_BASE @ ''/alerts/active/area/'' @ state;
          (r, w1) = get_weather_data client (JStr url) w
      in (bindE r (\<lambda>data.
          bindE (if \<not> truthy data then Inr True
                 else bindE (py_in ''features'' data) (\<lambda>b. Inr (\<not> b))) (\<lambda>unable.
          if unable then Inr ''Unable to fetch alerts!''
          else
            bindE (subscript data ''features'') (\<lambda>features.
            if \<not> truthy features then Inr ''No active alerts for this state''
            else
              bindE (subscript data ''features'') (\<lambda>features.
              bindE (py_iter features) (\<lambda>fs.
              bindE (mapE format_alert fs) (\<lambda>alerts.
              Inr (str_join ''\<newline>---\<newline>'' alerts))))))),
          w1))"

text \<open>The text the loop of \<open>get_forecast\<close> builds for one period.\<close>

definition forecast_text :: "json \<Rightarrow> exn + string" where
  "forecast_text period =
     bindE (subscript period ''name'') (\<lambda>name.
     bindE (subscript period ''temperature'') (\<lambda>temperature.
     bindE (subscript period ''temperatureUnit'') (\<lambda>temperatureUnit.
     bindE (subscript period ''windSpeed'') (\<lambda>windSpeed.
     bindE (subscript period ''windDirection'') (\<lambda>windDirection.
     bindE (bindE (subscript period ''probabilityOfPrecipitation'')
                  (\<lambda>p. subscript p ''value'')) (\<lambda>precipitation.
     bindE (subscript period ''detailedForecast'') (\<lambda>detailedForecast.
     Inr (''\<newline>'' @ py_str name @ '':''
          @ ''\<newline>Temperature: '' @ py_str temperature @ '' Degrees '' @ py_str temperatureUnit
          @ ''\<newline>Wind: '' @ py_str windSpeed @ '' '' @ py_str windDirection
          @ ''\<newline>Precipitation: '' @ py_str precipitation @ ''%''
          @ ''\<newline>Detailed Forecast: '' @ py_str detailedForecast))))))))"

text \<open>The loop \<open>for period in periods[:7]\<close>, appending to \<open>forecasts\<close>.\<close>

fun forecast_loop :: "json list \<Rightarrow> string list \<Rightarrow> exn + string list" where
  "forecast_loop [] forecasts = Inr forecasts"
| "forecast_loop (period # rest) forecasts =
     bindE (forecast_text period) (\<lambda>forecast. forecast_loop rest (forecasts @ [forecast]))"

definition get_forecast :: "client \<Rightarrow> pyfloat \<Rightarrow> pyfloat \<Rightarrow> world \<Rightarrow> (exn + string) \<times> world" where
  "get_forecast client latitude longitude w =
     (let points_url = NWS_API_BASE @ ''/points/'' @ float_repr latitude @ '','' @ float_repr longitude;
          (r1, w1) = get_weather_data client (JStr points_url) w
      in case r1 of
           Inl e \<Rightarrow> (Inl e, w1)
         | Inr points_data \<Rightarrow>
             if \<not> truthy points_data then (Inr ''No Data Found'', w1)
             else
               (case bindE (subscript points_data ''properties'') (\<lambda>p. subscript p ''forecast'') of
                  Inl e \<Rightarrow> (Inl e, w1)
                | Inr forecast_url \<Rightarrow>
                    (let (r2, w2) = get_weather_data client forecast_url w1
                     in case r2 of
                          Inl e \<Rightarrow> (Inl e, w2)
                        | Inr forecast_data \<Rightarrow>
                            if \<not> truthy forecast_data then (Inr ''No Forecast Data Found'', w2)
                            else
                              (bindE (bindE (subscript forecast_data ''properties'')
                                            (\<lambda>p. subscript p ''periods'')) (\<lambda>periods.
                               bindE (bindE (slice_to periods 7) py_iter) (\<lambda>ps.
                               bindE (forecast_loop ps []) (\<lambda>forecasts.
                               Inr (str_join ''\<newline>---\<newline>'' forecasts)))),
                               w2))))"

section \<open>The texts as the specification describes them\<close>

text \<open>The field \<open>k\<close> of a mapping; a value that is not a mapping has no fields.\<close>

definition field :: "json \<Rightarrow> string \<Rightarrow> json option" where
  "field v k = (case v of JDict kvs \<Rightarrow> map_of kvs k | _ \<Rightarrow> None)"

definition is_mapping :: "json \<Rightarrow> bool" where
  "is_mapping v = (case v of JDict kvs \<Rightarrow> True | _ \<Rightarrow> False)"

text \<open>
  Alert feature: a mapping with a \<open>properties\<close> sub-mapping. Each of the five fields of
  the block is the text of that field of the properties, or its fallback text when the
  properties do not have the field.
\<close>

definition feature_properties :: "json \<Rightarrow> (string \<times> json) list option" where
  "feature_properties f =
     (case field f ''properties'' of Some (JDict props) \<Rightarrow> Some props | _ \<Rightarrow> None)"

definition field_or :: "(string \<times> json) list \<Rightarrow> string \<Rightarrow> string \<Rightarrow> string" where
  "field_or props k fallback = (case map_of props k of None \<Rightarrow> fallback | Some v \<Rightarrow> py_str v)"

definition alert_block :: "(string \<times> json) list \<Rightarrow> string" where
  "alert_block props =
     ''\<newline>Event: '' @ field_or props ''event'' ''Unknown''
     @ ''\<newline>Area: '' @ field_or props ''areaDesc'' ''Unknown''
     @ ''\<newline>Severity: '' @ field_or props ''severity'' ''Unknown''
     @ ''\<newline>Description: '' @ field_or props ''description'' ''No Description''
     @ ''\<newline>Instruction: '' @ field_or props ''instruction'' ''No Specific Instruction''
     @ ''\<newline>''"

text \<open>A feature with the types of the data model, whether or not it has \<open>properties\<close>.\<close>

definition feature_shaped :: "json \<Rightarrow> bool" where
  "feature_shaped f =
     (is_mapping f \<and> (case field f ''properties'' of None \<Rightarrow> True | Some p \<Rightarrow> is_mapping p))"

text \<open>
  Forecast period: a mapping with the required fields \<open>name\<close>, \<open>temperature\<close>,
  \<open>temperatureUnit\<close>, \<open>windSpeed\<close>, \<open>windDirection\<close>, \<open>detailedForecast\<close> and the nested
  \<open>probabilityOfPrecipitation.value\<close>. \<open>as_period\<close> reads them, and is \<open>None\<close> when one
  is missing.
\<close>

record period =
  p_name :: json
  p_temperature :: json
  p_temperatureUnit :: json
  p_windSpeed :: json
  p_windDirection :: json
  p_precipitation :: json
  p_detailedForecast :: json

definition as_period :: "json \<Rightarrow> period option" where
  "as_period p =
     Option.bind (field p ''name'') (\<lambda>n.
     Option.bind (field p ''temperature'') (\<lambda>t.
     Option.bind (field p ''temperatureUnit'') (\<lambda>u.
     Option.bind (field p ''windSpeed'') (\<lambda>ws.
     Option.bind (field p ''windDirection'') (\<lambda>wd.
     Option.bind (Option.bind (field p ''probabilityOfPrecipitation'') (\<lambda>q. field q ''value'')) (\<lambda>pr.
     Option.bind (field p ''detailedForecast'') (\<lambda>d.
     Some \<lparr>p_name = n, p_temperature = t, p_temperatureUnit = u, p_windSpeed = ws,
           p_windDirection = wd, p_precipitation = pr, p_detailedForecast = d\<rparr>)))))))"

definition period_block :: "period \<Rightarrow> string" where
  "period_block p =
     ''\<newline>'' @ py_str (p_name p) @ '':''
     @ ''\<newline>Temperature: '' @ py_str (p_temperature p) @ '' Degrees '' @ py_str (p_temperatureUnit p)
     @ ''\<newline>Wind: '' @ py_str (p_windSpeed p) @ '' '' @ py_str (p_windDirection p)
     @ ''\<newline>Precipitation: '' @ py_str (p_precipitation p) @ ''%''
     @ ''\<newline>Detailed Forecast: '' @ py_str (p_detailedForecast p)"

text \<open>A period with the types of the data model, whether or not it has all its fields.\<close>

definition period_shaped :: "json \<Rightarrow> bool" where
  "period_shaped p =
     (is_mapping p \<and>
      (case field p ''probabilityOfPrecipitation'' of None \<Rightarrow> True | Some q \<Rightarrow> is_mapping q))"

text \<open>
  The failures of a fetch that the specification names: a timeout, a transport-level
  error, a status that is not 200 to 299, a body that does not decode.
\<close>

fun fetch_failure :: "exn + response \<Rightarrow> bool" where
  "fetch_failure (Inl e) = (e = TimeoutException \<or> e = ConnectError)"
| "fetch_failure (Inr r) = (status_code r < 200 \<or> 299 < status_code r \<or> body r = None)"

text \<open>The request \<open>get_weather_data\<close> sends for a URL.\<close>

definition request_for :: "json \<Rightarrow> request" where
  "request_for url =
     \<lparr>req_url = url,
      req_headers = [(''User-Agent'', ''weather-app/1.0''), (''Accept'', ''application/geo+json'')],
      req_timeout = 35\<rparr>"

definition alerts_url :: "string \<Rightarrow> json" where
  "alerts_url state = JStr (''https://api.weather.gov/alerts/active/area/'' @ state)"

definition points_url :: "pyfloat \<Rightarrow> pyfloat \<Rightarrow> json" where
  "points_url latitude longitude =
     JStr (''https://api.weather.gov/points/'' @ float_repr latitude @ '','' @ float_repr longitude)"

text \<open>The payload of a fetch that succeeded: status 200 to 299 and a body that decodes.\<close>

fun fetched :: "exn + response \<Rightarrow> json option" where
  "fetched (Inl e) = None"
| "fetched (Inr r) = (if 200 \<le> status_code r \<and> status_code r \<le> 299 then body r else None)"

section \<open>Fixtures\<close>

text \<open>A client that answers from a table of URLs, whatever was asked before; a URL that
  is not in the table cannot be reached.\<close>

definition fixture :: "(string \<times> (exn + response)) list \<Rightarrow> client" where
  "fixture table w req =
     (case req_url req of
        JStr u \<Rightarrow> (case map_of table u of Some out \<Rightarrow> out | None \<Rightarrow> Inl ConnectError)
      | _ \<Rightarrow> Inl TypeError)"

definition ok :: "json \<Rightarrow> exn + response" where
  "ok v = Inr \<lparr>status_code = 200, body = Some v\<rparr>"

definition wa_url :: string where
  "wa_url = ''https://api.weather.gov/alerts/active/area/WA''"

definition seattle_url :: string where
  "seattle_url = ''https://api.weather.gov/points/47.6,-122.3''"

definition grid_url :: string where
  "grid_url = ''https://api.weather.gov/gridpoints/SEW/125,68/forecast''"

definition wa_alerts :: json where
  "wa_alerts =
     JDict [(''type'', JStr ''FeatureCollection''),
            (''features'', JList [
               JDict [(''id'', JStr ''a1''),
                      (''properties'', JDict [(''event'', JStr ''Flood Watch''),
                                              (''areaDesc'', JStr ''King''),
                                              (''severity'', JStr ''Severe'')])],
               JDict [(''properties'', JDict [(''instruction'', JNull)])]])]"

definition wa_alerts_broken :: json where
  "wa_alerts_broken =
     JDict [(''features'', JList [
               JDict [(''properties'', JDict [(''event'', JStr ''Flood Watch'')])],
               JDict [(''id'', JStr ''a2'')]])]"

definition seattle_points :: json where
  "seattle_points = JDict [(''properties'', JDict [(''forecast'', JStr grid_url)])]"

definition sample_period :: "string \<Rightarrow> int \<Rightarrow> json" where
  "sample_period nm t =
     JDict [(''name'', JStr nm),
            (''temperature'', JInt t),
            (''temperatureUnit'', JStr ''F''),
            (''probabilityOfPrecipitation'', JDict [(''unitCode'', JStr ''wmoUnit:percent''),
                                                    (''value'', JNull)]),
            (''windSpeed'', JStr ''5 mph''),
            (''windDirection'', JStr ''NW''),
            (''detailedForecast'', JStr ''Sunny.'')]"

definition sample_record :: "string \<Rightarrow> int \<Rightarrow> period" where
  "sample_record nm t =
     \<lparr>p_name = JStr nm, p_temperature = JInt t, p_temperatureUnit = JStr ''F'',
      p_windSpeed = JStr ''5 mph'', p_windDirection = JStr ''NW'', p_precipitation = JNull,
      p_detailedForecast = JStr ''Sunny.''\<rparr>"

definition seattle_periods :: "json list" where
  "seattle_periods =
     [sample_period ''Mon'' 61, sample_period ''Mon Night'' 48,
      sample_period ''Tue'' 59, sample_period ''Tue Night'' 47,
      sample_period ''Wed'' 9, sample_period ''Wed Night'' (- 3),
      sample_period ''Thu'' 0, sample_period ''Thu Night'' 102]"

definition seattle_forecast :: json where
  "seattle_forecast = JDict [(''properties'', JDict [(''periods'', JList seattle_periods)])]"

definition broken_periods :: "json list" where
  "broken_periods =
     [sample_period ''Mon'' 61,
      JDict [(''name'', JStr ''Mon Night''), (''temperature'', JInt 48)]]"

definition seattle_forecast_broken :: json where
  "seattle_forecast_broken = JDict [(''properties'', JDict [(''periods'', JList broken_periods)])]"

definition seattle :: pyfloat where
  "seattle = PyFloat ''47.6''"

definition seattle_west :: pyfloat where
  "seattle_west = PyFloat ''-122.3''"

section \<open>Lemmas\<close>

subsection \<open>Sequencing\<close>

lemma bindE_Inl_iff: "(bindE m f = Inl e) = (m = Inl e \<or> (\<exists>x. m = Inr x \<and> f x = Inl e))"
  by (cases m) auto

lemma bindE_Inr_iff: "(bindE m f = Inr y) = (\<exists>x. m = Inr x \<and> f x = Inr y)"
  by (cases m) auto

subsection \<open>Fields and subscripts\<close>

lemma field_subscript:
  "field v k = Some x \<Longrightarrow> subscript v k = Inr x"
  by (cases v) (simp_all add: field_def)

lemma subscript_field: "subscript v k = Inr x \<Longrightarrow> field v k = Some x"
  by (cases v) (auto simp: field_def split: option.splits)

lemma subscript_errors: "subscript v k = Inl e \<Longrightarrow> e = KeyError \<or> e = TypeError"
  by (cases v) (auto split: option.splits)

lemma field_truthy: "field v k = Some x \<Longrightarrow> truthy v"
  by (cases v) (auto simp: field_def)

lemma field_py_in: "is_mapping v \<Longrightarrow> py_in k v = Inr (field v k \<noteq> None)"
  by (cases v) (auto simp: field_def is_mapping_def)

lemma field_is_mapping: "field v k = Some x \<Longrightarrow> is_mapping v"
  by (cases v) (auto simp: field_def is_mapping_def)

lemma path_subscript:
  "Option.bind (field v k) (\<lambda>p. field p k') = Some x \<Longrightarrow>
   bindE (subscript v k) (\<lambda>p. subscript p k') = Inr x"
  by (auto simp: field_subscript split: Option.bind_splits)

lemma path_missing:
  assumes "is_mapping v"
    and "\<forall>p. field v k = Some p \<longrightarrow> is_mapping p"
    and "Option.bind (field v k) (\<lambda>p. field p k') = None"
  shows "bindE (subscript v k) (\<lambda>p. subscript p k') = Inl KeyError"
proof (cases v)
  case (JDict kvs)
  show ?thesis
  proof (cases "map_of kvs k")
    case None
    then show ?thesis using JDict by simp
  next
    case (Some p)
    with assms(2) JDict have "is_mapping p" by (simp add: field_def)
    then obtain pk where "p = JDict pk" by (cases p) (simp_all add: is_mapping_def)
    with assms(3) JDict Some show ?thesis by (simp add: field_def)
  qed
qed (use assms(1) in \<open>simp_all add: is_mapping_def\<close>)

lemma path_fails:
  assumes "Option.bind (field v k) (\<lambda>p. field p k') = None"
  shows "\<exists>e. bindE (subscript v k) (\<lambda>p. subscript p k') = Inl e \<and> (e = KeyError \<or> e = TypeError)"
proof (cases "bindE (subscript v k) (\<lambda>p. subscript p k')")
  case (Inl e)
  then show ?thesis by (auto simp: bindE_Inl_iff dest: subscript_errors)
next
  case (Inr x)
  then have "Option.bind (field v k) (\<lambda>p. field p k') = Some x"
    by (auto simp: bindE_Inr_iff dest!: subscript_field)
  with assms show ?thesis by simp
qed

subsection \<open>The fetch\<close>

lemma get_weather_data_world:
  "snd (get_weather_data client url w) = w @ [request_for url]"
  by (simp add: get_weather_data_def request_for_def USER_AGENT_def Let_def)

lemma get_weather_data_fetched:
  "fetched (client w (request_for url)) = Some d \<Longrightarrow>
   get_weather_data client url w = (Inr d, w @ [request_for url])"
  by (cases "client w (request_for url)")
     (auto simp: get_weather_data_def request_for_def USER_AGENT_def raise_for_status_def
        response_json_def Let_def split: if_splits)

subsection \<open>Alerts\<close>

lemma format_alert_properties:
  "feature_properties f = Some props \<Longrightarrow> format_alert f = Inr (alert_block props)"
  by (cases f)
     (auto simp: feature_properties_def field_def format_alert_def alert_block_def field_or_def
       split: option.splits json.splits)

lemma format_alert_missing:
  "is_mapping f \<Longrightarrow> field f ''properties'' = None \<Longrightarrow> format_alert f = Inl KeyError"
  by (cases f) (simp_all add: is_mapping_def field_def format_alert_def)

lemma feature_shaped_properties:
  "feature_shaped f \<Longrightarrow> field f ''properties'' \<noteq> None \<Longrightarrow> \<exists>props. feature_properties f = Some props"
  by (auto simp: feature_shaped_def feature_properties_def is_mapping_def split: json.splits)

lemma those_length: "those xs = Some ys \<Longrightarrow> length ys = length xs"
  by (induction xs arbitrary: ys) (auto split: option.splits)

lemma mapE_format_alert:
  "those (map feature_properties fs) = Some pks \<Longrightarrow>
   mapE format_alert fs = Inr (map alert_block pks)"
  by (induction fs arbitrary: pks)
     (auto simp: format_alert_properties split: option.splits)

lemma mapE_format_alert_missing:
  "\<forall>f\<in>set fs. feature_shaped f \<Longrightarrow> \<exists>f\<in>set fs. field f ''properties'' = None \<Longrightarrow>
   mapE format_alert fs = Inl KeyError"
proof (induction fs)
  case Nil
  then show ?case by simp
next
  case (Cons f fs)
  show ?case
  proof (cases "field f ''properties''")
    case None
    moreover have "is_mapping f" using Cons.prems(1) by (simp add: feature_shaped_def)
    ultimately show ?thesis by (simp add: format_alert_missing)
  next
    case (Some p)
    with Cons.prems(1) obtain props where "feature_properties f = Some props"
      using feature_shaped_properties [of f] by auto
    moreover from Some Cons.prems have "\<exists>g\<in>set fs. field g ''properties'' = None" by auto
    ultimately show ?thesis
      using Cons.IH Cons.prems(1) by (simp add: format_alert_properties)
  qed
qed

lemma mapE_fails:
  "\<exists>x\<in>set xs. \<exists>e. g x = Inl e \<Longrightarrow> \<exists>e. mapE g xs = Inl e"
proof (induction xs)
  case Nil
  then show ?case by simp
next
  case (Cons x xs)
  show ?case
  proof (cases "g x")
    case (Inl e)
    then show ?thesis by simp
  next
    case (Inr y)
    with Cons.prems have "\<exists>z\<in>set xs. \<exists>e. g z = Inl e" by auto
    with Cons.IH obtain e where "mapE g xs = Inl e" by blast
    with Inr show ?thesis by simp
  qed
qed

lemma get_alerts_fetched:
  assumes "get_weather_data client (alerts_url state) w = (Inr data, w1)"
  shows "get_alerts client state w =
    (bindE (if \<not> truthy data then Inr True
            else bindE (py_in ''features'' data) (\<lambda>b. Inr (\<not> b))) (\<lambda>unable.
     if unable then Inr ''Unable to fetch alerts!''
     else bindE (subscript data ''features'') (\<lambda>features.
          if \<not> truthy features then Inr ''No active alerts for this state''
          else bindE (subscript data ''features'') (\<lambda>features.
               bindE (py_iter features) (\<lambda>fs.
               bindE (mapE format_alert fs) (\<lambda>alerts.
               Inr (str_join ''\<newline>---\<newline>'' alerts)))))), w1)"
proof -
  have "get_weather_data client (JStr (NWS_API_BASE @ ''/alerts/active/area/'' @ state)) w
        = (Inr data, w1)"
    using assms by (simp add: alerts_url_def NWS_API_BASE_def)
  then show ?thesis
    by (simp add: get_alerts_def)
qed

lemma get_alerts_raised:
  assumes "get_weather_data client (alerts_url state) w = (Inl e, w1)"
  shows "get_alerts client state w = (Inl e, w1)"
proof -
  have "get_weather_data client (JStr (NWS_API_BASE @ ''/alerts/active/area/'' @ state)) w
        = (Inl e, w1)"
    using assms by (simp add: alerts_url_def NWS_API_BASE_def)
  then show ?thesis
    by (simp add: get_alerts_def)
qed

subsection \<open>Forecast\<close>

lemma forecast_text_as_period:
  "as_period p = Some pr \<Longrightarrow> forecast_text p = Inr (period_block pr)"
  by (auto simp: as_period_def forecast_text_def period_block_def field_subscript
      split: Option.bind_splits)

lemma forecast_text_missing:
  "period_shaped p \<Longrightarrow> as_period p = None \<Longrightarrow> forecast_text p = Inl KeyError"
  by (cases p)
     (auto simp: period_shaped_def is_mapping_def as_period_def forecast_text_def field_def
       split: Option.bind_splits option.splits json.splits)

lemma forecast_text_errors: "forecast_text p = Inl e \<Longrightarrow> e = KeyError \<or> e = TypeError"
  unfolding forecast_text_def bindE_Inl_iff
  by (elim disjE exE conjE) (auto dest: subscript_errors)

lemma forecast_text_fails:
  assumes "as_period p = None"
  shows "\<exists>e. forecast_text p = Inl e"
proof (cases "forecast_text p")
  case (Inl e)
  then show ?thesis by blast
next
  case (Inr t)
  then have "as_period p \<noteq> None"
    unfolding forecast_text_def as_period_def bindE_Inr_iff
    by (elim exE conjE) (auto dest!: subscript_field)
  with assms show ?thesis by simp
qed

lemma forecast_loop_those:
  "those (map as_period ps) = Some prs \<Longrightarrow>
   forecast_loop ps acc = Inr (acc @ map period_block prs)"
  by (induction ps arbitrary: acc prs)
     (auto simp: forecast_text_as_period split: option.splits)

lemma forecast_loop_missing:
  "\<forall>p\<in>set ps. period_shaped p \<Longrightarrow> \<exists>p\<in>set ps. as_period p = None \<Longrightarrow>
   forecast_loop ps acc = Inl KeyError"
proof (induction ps arbitrary: acc)
  case Nil
  then show ?case by simp
next
  case (Cons p ps)
  show ?case
  proof (cases "as_period p")
    case None
    then show ?thesis using Cons.prems(1) by (simp add: forecast_text_missing)
  next
    case (Some pr)
    with Cons.prems have "\<exists>q\<in>set ps. as_period q = None" by auto
    with Cons.IH Cons.prems(1) Some show ?thesis
      by (simp add: forecast_text_as_period)
  qed
qed

lemma forecast_loop_errors:
  "forecast_loop ps acc = Inl e \<Longrightarrow> e = KeyError \<or> e = TypeError"
  by (induction ps arbitrary: acc) (auto simp: bindE_Inl_iff dest: forecast_text_errors)

lemma forecast_loop_fails:
  "\<exists>p\<in>set ps. as_period p = None \<Longrightarrow> \<exists>e. forecast_loop ps acc = Inl e"
proof (induction ps arbitrary: acc)
  case Nil
  then show ?case by simp
next
  case (Cons p ps)
  show ?case
  proof (cases "forecast_text p")
    case (Inl e)
    then show ?thesis by simp
  next
    case (Inr t)
    with forecast_text_fails [of p] have "as_period p \<noteq> None" by auto
    with Cons.prems have "\<exists>q\<in>set ps. as_period q = None" by auto
    with Cons.IH Inr show ?thesis by simp
  qed
qed

lemma get_forecast_fetched:
  assumes "get_weather_data client (points_url latitude longitude) w = (Inr points_data, w1)"
  shows "get_forecast client latitude longitude w =
    (if \<not> truthy points_data then (Inr ''No Data Found'', w1)
     else
       (case bindE (subscript points_data ''properties'') (\<lambda>p. subscript p ''forecast'') of
          Inl e \<Rightarrow> (Inl e, w1)
        | Inr forecast_url \<Rightarrow>
            (let (r2, w2) = get_weather_data client forecast_url w1
             in case r2 of
                  Inl e \<Rightarrow> (Inl e, w2)
                | Inr forecast_data \<Rightarrow>
                    if \<not> truthy forecast_data then (Inr ''No Forecast Data Found'', w2)
                    else
                      (bindE (bindE (subscript forecast_data ''properties'')
                                    (\<lambda>p. subscript p ''periods'')) (\<lambda>periods.
                       bindE (bindE (slice_to periods 7) py_iter) (\<lambda>ps.
                       bindE (forecast_loop ps []) (\<lambda>forecasts.
                       Inr (str_join ''\<newline>---\<newline>'' forecasts)))),
                       w2))))"
proof -
  have "get_weather_data client
          (JStr (NWS_API_BASE @ ''/points/'' @ float_repr latitude @ '','' @ float_repr longitude)) w
        = (Inr points_data, w1)"
    using assms by (simp add: points_url_def NWS_API_BASE_def)
  then show ?thesis
    by (simp add: get_forecast_def)
qed

lemma get_forecast_raised:
  assumes "get_weather_data client (points_url latitude longitude) w = (Inl e, w1)"
  shows "get_forecast client latitude longitude w = (Inl e, w1)"
proof -
  have "get_weather_data client
          (JStr (NWS_API_BASE @ ''/points/'' @ float_repr latitude @ '','' @ float_repr longitude)) w
        = (Inl e, w1)"
    using assms by (simp add: points_url_def NWS_API_BASE_def)
  then show ?thesis
    by (simp add: get_forecast_def)
qed

lemma get_forecast_forecast_fetched:
  assumes "get_weather_data client (points_url latitude longitude) w = (Inr points_data, w1)"
    and "Option.bind (field points_data ''properties'') (\<lambda>p. field p ''forecast'') = Some forecast_url"
    and "get_weather_data client forecast_url w1 = (Inr forecast_data, w2)"
  shows "get_forecast client latitude longitude w =
    (if \<not> truthy forecast_data then (Inr ''No Forecast Data Found'', w2)
     else
       (bindE (bindE (subscript forecast_data ''properties'')
                     (\<lambda>p. subscript p ''periods'')) (\<lambda>periods.
        bindE (bindE (slice_to periods 7) py_iter) (\<lambda>ps.
        bindE (forecast_loop ps []) (\<lambda>forecasts.
        Inr (str_join ''\<newline>---\<newline>'' forecasts)))),
        w2))"
proof -
  have "truthy points_data"
    using assms(2) by (auto simp: field_truthy split: Option.bind_splits)
  then show ?thesis
    by (simp add: get_forecast_fetched [OF assms(1)] path_subscript [OF assms(2)] assms(3))
qed

section \<open>The claims\<close>

text \<open>
  Claim C1. When the points fetch gives a payload with \<open>properties.forecast\<close>, the fetch
  of that URL gives a payload whose \<open>properties.periods\<close> is a list of \<open>N\<close> periods, and
  the first \<open>min N 7\<close> of them have all the required fields, \<open>get_forecast\<close> returns the
  blocks of these periods, in their order, joined by the separator line: \<open>min N 7\<close>
  blocks, each with the name, the temperature and its unit, the wind speed and direction,
  the precipitation value followed by \<open>%\<close>, and the detailed forecast, as the payload
  has them. (Both payloads are then other than \<open>None\<close>; \<open>N\<close> need not be at most 20.)
\<close>

theorem get_forecast_blocks:
  assumes "get_weather_data client (points_url latitude longitude) w = (Inr points_data, w1)"
    and "Option.bind (field points_data ''properties'') (\<lambda>p. field p ''forecast'') = Some forecast_url"
    and "get_weather_data client forecast_url w1 = (Inr forecast_data, w2)"
    and "Option.bind (field forecast_data ''properties'') (\<lambda>p. field p ''periods'') = Some (JList periods)"
    and "those (map as_period (take 7 periods)) = Some prs"
  shows "get_forecast client latitude longitude w
           = (Inr (str_join ''\<newline>---\<newline>'' (map period_block prs)), w2)
         \<and> length prs = min (length periods) 7"
proof -
  have "truthy forecast_data"
    using assms(4) by (auto simp: field_truthy split: Option.bind_splits)
  then show ?thesis
    using those_length [OF assms(5)]
    by (simp add: get_forecast_forecast_fetched [OF assms(1-3)] path_subscript [OF assms(4)]
        forecast_loop_those [OF assms(5)])
qed

theorem get_forecast_blocks_witness:
  "get_forecast (fixture [(seattle_url, ok seattle_points), (grid_url, ok seattle_forecast)])
     seattle seattle_west []
   = (Inr (''\<newline>Mon:\<newline>Temperature: 61 Degrees F\<newline>Wind: 5 mph NW\<newline>Precipitation: None%\<newline>Detailed Forecast: Sunny.''
           @ ''\<newline>---\<newline>''
           @ ''\<newline>Mon Night:\<newline>Temperature: 48 Degrees F\<newline>Wind: 5 mph NW\<newline>Precipitation: None%\<newline>Detailed Forecast: Sunny.''
           @ ''\<newline>---\<newline>''
           @ ''\<newline>Tue:\<newline>Temperature: 59 Degrees F\<newline>Wind: 5 mph NW\<newline>Precipitation: None%\<newline>Detailed Forecast: Sunny.''
           @ ''\<newline>---\<newline>''
           @ ''\<newline>Tue Night:\<newline>Temperature: 47 Degrees F\<newline>Wind: 5 mph NW\<newline>Precipitation: None%\<newline>Detailed Forecast: Sunny.''
           @ ''\<newline>---\<newline>''
           @ ''\<newline>Wed:\<newline>Temperature: 9 Degrees F\<newline>Wind: 5 mph NW\<newline>Precipitation: None%\<newline>Detailed Forecast: Sunny.''
           @ ''\<newline>---\<newline>''
           @ ''\<newline>Wed Night:\<newline>Temperature: -3 Degrees F\<newline>Wind: 5 mph NW\<newline>Precipitation: None%\<newline>Detailed Forecast: Sunny.''
           @ ''\<newline>---\<newline>''
           @ ''\<newline>Thu:\<newline>Temperature: 0 Degrees F\<newline>Wind: 5 mph NW\<newline>Precipitation: None%\<newline>Detailed Forecast: Sunny.''),
      [request_for (points_url seattle seattle_west), request_for (JStr grid_url)])
   \<and> length seattle_periods = 8"
proof -
  let ?c = "fixture [(seattle_url, ok seattle_points), (grid_url, ok seattle_forecast)]"
  let ?w1 = "[request_for (points_url seattle seattle_west)]"
  let ?w2 = "[request_for (points_url seattle seattle_west), request_for (JStr grid_url)]"
  let ?prs = "[sample_record ''Mon'' 61, sample_record ''Mon Night'' 48,
               sample_record ''Tue'' 59, sample_record ''Tue Night'' 47,
               sample_record ''Wed'' 9, sample_record ''Wed Night'' (- 3),
               sample_record ''Thu'' 0]"
  have h1: "get_weather_data ?c (points_url seattle seattle_west) [] = (Inr seattle_points, ?w1)"
    by code_simp
  have h2: "Option.bind (field seattle_points ''properties'') (\<lambda>p. field p ''forecast'')
            = Some (JStr grid_url)"
    by code_simp
  have h3: "get_weather_data ?c (JStr grid_url) ?w1 = (Inr seattle_forecast, ?w2)"
    by code_simp
  have h4: "Option.bind (field seattle_forecast ''properties'') (\<lambda>p. field p ''periods'')
            = Some (JList seattle_periods)"
    by code_simp
  have h5: "those (map as_period (take 7 seattle_periods)) = Some ?prs"
    by code_simp
  have blocks: "str_join ''\<newline>---\<newline>'' (map period_block ?prs) =
           ''\<newline>Mon:\<newline>Temperature: 61 Degrees F\<newline>Wind: 5 mph NW\<newline>Precipitation: None%\<newline>Detailed Forecast: Sunny.''
           @ ''\<newline>---\<newline>''
           @ ''\<newline>Mon Night:\<newline>Temperature: 48 Degrees F\<newline>Wind: 5 mph NW\<newline>Precipitation: None%\<newline>Detailed Forecast: Sunny.''
           @ ''\<newline>---\<newline>''
           @ ''\<newline>Tue:\<newline>Temperature: 59 Degrees F\<newline>Wind: 5 mph NW\<newline>Precipitation: None%\<newline>Detailed Forecast: Sunny.''
           @ ''\<newline>---\<newline>''
           @ ''\<newline>Tue Night:\<newline>Temperature: 47 Degrees F\<newline>Wind: 5 mph NW\<newline>Precipitation: None%\<newline>Detailed Forecast: Sunny.''
           @ ''\<newline>---\<newline>''
           @ ''\<newline>Wed:\<newline>Temperature: 9 Degrees F\<newline>Wind: 5 mph NW\<newline>Precipitation: None%\<newline>Detailed Forecast: Sunny.''
           @ ''\<newline>---\<newline>''
           @ ''\<newline>Wed Night:\<newline>Temperature: -3 Degrees F\<newline>Wind: 5 mph NW\<newline>Precipitation: None%\<newline>Detailed Forecast: Sunny.''
           @ ''\<newline>---\<newline>''
           @ ''\<newline>Thu:\<newline>Temperature: 0 Degrees F\<newline>Wind: 5 mph NW\<newline>Precipitation: None%\<newline>Detailed Forecast: Sunny.''"
    by code_simp
  have len: "length seattle_periods = 8"
    by (simp add: seattle_periods_def)
  from get_forecast_blocks [OF h1 h2 h3 h4 h5] blocks len show ?thesis
    by (simp only:)
qed

text \<open>
  Claim C2. When the alerts fetch gives a mapping whose \<open>features\<close> is a non-empty list
  of features, each a mapping with a \<open>properties\<close> mapping, \<open>get_alerts\<close> returns one
  block for each feature, joined by the separator line; each block has the five labelled
  fields, and each field is the fallback text exactly when the properties lack its key.
\<close>

theorem get_alerts_blocks:
  assumes "get_weather_data client (alerts_url state) w = (Inr data, w1)"
    and "field data ''features'' = Some (JList fs)"
    and "fs \<noteq> []"
    and "those (map feature_properties fs) = Some props"
  shows "get_alerts client state w
           = (Inr (str_join ''\<newline>---\<newline>'' (map alert_block props)), w1)
         \<and> length props = length fs"
  using assms(2,3) those_length [OF assms(4)]
  by (simp add: get_alerts_fetched [OF assms(1)] field_py_in field_is_mapping
      field_truthy field_subscript mapE_format_alert [OF assms(4)])

theorem get_alerts_blocks_witness:
  "get_alerts (fixture [(wa_url, ok wa_alerts)]) ''WA'' []
   = (Inr (''\<newline>Event: Flood Watch\<newline>Area: King\<newline>Severity: Severe\<newline>Description: No Description\<newline>Instruction: No Specific Instruction\<newline>''
           @ ''\<newline>---\<newline>''
           @ ''\<newline>Event: Unknown\<newline>Area: Unknown\<newline>Severity: Unknown\<newline>Description: No Description\<newline>Instruction: None\<newline>''),
      [request_for (alerts_url ''WA'')])"
proof -
  let ?c = "fixture [(wa_url, ok wa_alerts)]"
  let ?fs = "[JDict [(''id'', JStr ''a1''),
                     (''properties'', JDict [(''event'', JStr ''Flood Watch''),
                                             (''areaDesc'', JStr ''King''),
                                             (''severity'', JStr ''Severe'')])],
              JDict [(''properties'', JDict [(''instruction'', JNull)])]]"
  let ?props = "[[(''event'', JStr ''Flood Watch''), (''areaDesc'', JStr ''King''),
                  (''severity'', JStr ''Severe'')],
                 [(''instruction'', JNull)]]"
  have h1: "get_weather_data ?c (alerts_url ''WA'') [] = (Inr wa_alerts, [request_for (alerts_url ''WA'')])"
    by code_simp
  have h2: "field wa_alerts ''features'' = Some (JList ?fs)"
    by code_simp
  have h3: "?fs \<noteq> []"
    by simp
  have h4: "those (map feature_properties ?fs) = Some ?props"
    by code_simp
  have blocks: "str_join ''\<newline>---\<newline>'' (map alert_block ?props) =
           ''\<newline>Event: Flood Watch\<newline>Area: King\<newline>Severity: Severe\<newline>Description: No Description\<newline>Instruction: No Specific Instruction\<newline>''
           @ ''\<newline>---\<newline>''
           @ ''\<newline>Event: Unknown\<newline>Area: Unknown\<newline>Severity: Unknown\<newline>Description: No Description\<newline>Instruction: None\<newline>''"
    by code_simp
  from get_alerts_blocks [OF h1 h2 h3 h4] blocks show ?thesis
    by (simp only:)
qed

text \<open>
  Claim C3. Whatever the URL, a timeout, a transport-level error, a status outside 200 to
  299 or a body that does not decode makes \<open>get_weather_data\<close> return \<open>None\<close>, not raise;
  the result and the world after the call are the same for all these causes, so the caller
  cannot tell them apart.
\<close>

theorem get_weather_data_failure_absent:
  "fetch_failure (client w (request_for url)) \<Longrightarrow>
   get_weather_data client url w = (Inr JNull, w @ [request_for url])"
  by (cases "client w (request_for url)")
     (auto simp: get_weather_data_def request_for_def USER_AGENT_def raise_for_status_def
        response_json_def Let_def)

theorem get_weather_data_failure_absent_witness:
  "fetch_failure (fixture [(wa_url, Inr \<lparr>status_code = 500, body = Some wa_alerts\<rparr>)] []
                    (request_for (alerts_url ''WA'')))
   \<and> get_weather_data (fixture [(wa_url, Inr \<lparr>status_code = 500, body = Some wa_alerts\<rparr>)])
        (alerts_url ''WA'') []
      = (Inr JNull, [request_for (alerts_url ''WA'')])
   \<and> fetch_failure (fixture [(wa_url, Inl TimeoutException)] [] (request_for (alerts_url ''WA'')))
   \<and> get_weather_data (fixture [(wa_url, Inl TimeoutException)]) (alerts_url ''WA'') []
      = (Inr JNull, [request_for (alerts_url ''WA'')])
   \<and> fetch_failure (fixture [(wa_url, Inr \<lparr>status_code = 200, body = None\<rparr>)] []
                    (request_for (alerts_url ''WA'')))
   \<and> get_weather_data (fixture [(wa_url, Inr \<lparr>status_code = 200, body = None\<rparr>)])
        (alerts_url ''WA'') []
      = (Inr JNull, [request_for (alerts_url ''WA'')])"
proof -
  have h1: "fetch_failure (fixture [(wa_url, Inr \<lparr>status_code = 500, body = Some wa_alerts\<rparr>)] []
                    (request_for (alerts_url ''WA'')))"
    by code_simp
  have h2: "fetch_failure (fixture [(wa_url, Inl TimeoutException)] []
                    (request_for (alerts_url ''WA'')))"
    by code_simp
  have h3: "fetch_failure (fixture [(wa_url, Inr \<lparr>status_code = 200, body = None\<rparr>)] []
                    (request_for (alerts_url ''WA'')))"
    by code_simp
  from h1 h2 h3
    get_weather_data_failure_absent
      [of "fixture [(wa_url, Inr \<lparr>status_code = 500, body = Some wa_alerts\<rparr>)]" "[]"
          "alerts_url ''WA''"]
    get_weather_data_failure_absent
      [of "fixture [(wa_url, Inl TimeoutException)]" "[]" "alerts_url ''WA''"]
    get_weather_data_failure_absent
      [of "fixture [(wa_url, Inr \<lparr>status_code = 200, body = None\<rparr>)]" "[]" "alerts_url ''WA''"]
  show ?thesis by simp
qed

text \<open>
  Claim C4. When the alerts fetch gives \<open>None\<close>, or a mapping without the key
  \<open>features\<close>, \<open>get_alerts\<close> returns \<open>Unable to fetch alerts!\<close>, whatever the state code.
\<close>

theorem get_alerts_unable:
  assumes "get_weather_data client (alerts_url state) w = (Inr data, w1)"
    and "data = JNull \<or> (is_mapping data \<and> field data ''features'' = None)"
  shows "get_alerts client state w = (Inr ''Unable to fetch alerts!'', w1)"
  using assms(2) by (auto simp: get_alerts_fetched [OF assms(1)] field_py_in)

theorem get_alerts_unable_witness:
  "get_alerts (fixture [(wa_url, ok (JDict [(''title'', JStr ''Not Found'')]))]) ''WA'' []
     = (Inr ''Unable to fetch alerts!'', [request_for (alerts_url ''WA'')])
   \<and> get_alerts (fixture [(wa_url, Inl TimeoutException)]) ''WA'' []
     = (Inr ''Unable to fetch alerts!'', [request_for (alerts_url ''WA'')])"
proof -
  let ?d = "JDict [(''title'', JStr ''Not Found'')]"
  have h1: "get_weather_data (fixture [(wa_url, ok ?d)]) (alerts_url ''WA'') []
            = (Inr ?d, [request_for (alerts_url ''WA'')])"
    by code_simp
  have h2: "?d = JNull \<or> (is_mapping ?d \<and> field ?d ''features'' = None)"
    by code_simp
  have k1: "get_weather_data (fixture [(wa_url, Inl TimeoutException)]) (alerts_url ''WA'') []
            = (Inr JNull, [request_for (alerts_url ''WA'')])"
    by code_simp
  have k2: "JNull = JNull \<or> (is_mapping JNull \<and> field JNull ''features'' = None)"
    by simp
  from get_alerts_unable [OF h1 h2] get_alerts_unable [OF k1 k2] show ?thesis
    by simp
qed

text \<open>
  Claim C5. When the fetch of the points URL gives \<open>None\<close>, \<open>get_forecast\<close> returns
  \<open>No Data Found\<close> and has made that one call and no other. When the points payload has
  \<open>properties.forecast\<close> and the fetch of that URL gives \<open>None\<close>, \<open>get_forecast\<close>
  returns \<open>No Forecast Data Found\<close>, after the two calls in this order.
\<close>

theorem get_forecast_fetch_failures:
  "(get_weather_data client (points_url latitude longitude) w = (Inr JNull, w1) \<longrightarrow>
      get_forecast client latitude longitude w = (Inr ''No Data Found'', w1)
      \<and> w1 = w @ [request_for (points_url latitude longitude)])
   \<and> (get_weather_data client (points_url latitude longitude) w = (Inr points_data, w1)
      \<and> Option.bind (field points_data ''properties'') (\<lambda>p. field p ''forecast'') = Some forecast_url
      \<and> get_weather_data client forecast_url w1 = (Inr JNull, w2) \<longrightarrow>
      get_forecast client latitude longitude w = (Inr ''No Forecast Data Found'', w2)
      \<and> w2 = w @ [request_for (points_url latitude longitude), request_for forecast_url])"
proof (intro conjI impI)
  assume a: "get_weather_data client (points_url latitude longitude) w = (Inr JNull, w1)"
  show "get_forecast client latitude longitude w = (Inr ''No Data Found'', w1)"
    by (simp add: get_forecast_fetched [OF a])
  show "w1 = w @ [request_for (points_url latitude longitude)]"
    using get_weather_data_world [of client "points_url latitude longitude" w] a by simp
next
  assume b: "get_weather_data client (points_url latitude longitude) w = (Inr points_data, w1)
      \<and> Option.bind (field points_data ''properties'') (\<lambda>p. field p ''forecast'') = Some forecast_url
      \<and> get_weather_data client forecast_url w1 = (Inr JNull, w2)"
  then have b1: "get_weather_data client (points_url latitude longitude) w = (Inr points_data, w1)"
    and b2: "Option.bind (field points_data ''properties'') (\<lambda>p. field p ''forecast'') = Some forecast_url"
    and b3: "get_weather_data client forecast_url w1 = (Inr JNull, w2)"
    by simp_all
  show "get_forecast client latitude longitude w = (Inr ''No Forecast Data Found'', w2)"
    by (simp add: get_forecast_forecast_fetched [OF b1 b2 b3])
  show "w2 = w @ [request_for (points_url latitude longitude), request_for forecast_url]"
    using get_weather_data_world [of client "points_url latitude longitude" w]
      get_weather_data_world [of client forecast_url w1] b1 b3 by simp
qed

theorem get_forecast_fetch_failures_witness:
  "get_forecast (fixture [(seattle_url, Inr \<lparr>status_code = 503, body = None\<rparr>)]) seattle seattle_west []
     = (Inr ''No Data Found'', [request_for (points_url seattle seattle_west)])
   \<and> get_forecast (fixture [(seattle_url, ok seattle_points)]) seattle seattle_west []
     = (Inr ''No Forecast Data Found'',
        [request_for (points_url seattle seattle_west), request_for (JStr grid_url)])"
proof -
  let ?w1 = "[request_for (points_url seattle seattle_west)]"
  let ?w2 = "[request_for (points_url seattle seattle_west), request_for (JStr grid_url)]"
  have a: "get_weather_data (fixture [(seattle_url, Inr \<lparr>status_code = 503, body = None\<rparr>)])
             (points_url seattle seattle_west) [] = (Inr JNull, ?w1)"
    by code_simp
  have b1: "get_weather_data (fixture [(seattle_url, ok seattle_points)])
             (points_url seattle seattle_west) [] = (Inr seattle_points, ?w1)"
    by code_simp
  have b2: "Option.bind (field seattle_points ''properties'') (\<lambda>p. field p ''forecast'')
            = Some (JStr grid_url)"
    by code_simp
  have b3: "get_weather_data (fixture [(seattle_url, ok seattle_points)]) (JStr grid_url) ?w1
            = (Inr JNull, ?w2)"
    by code_simp
  from get_forecast_fetch_failures
         [of "fixture [(seattle_url, Inr \<lparr>status_code = 503, body = None\<rparr>)]"
             seattle seattle_west "[]" ?w1] a
  have "get_forecast (fixture [(seattle_url, Inr \<lparr>status_code = 503, body = None\<rparr>)])
          seattle seattle_west [] = (Inr ''No Data Found'', ?w1)"
    by blast
  moreover
  from get_forecast_fetch_failures
         [of "fixture [(seattle_url, ok seattle_points)]" seattle seattle_west "[]" ?w1
             seattle_points "JStr grid_url" ?w2] b1 b2 b3
  have "get_forecast (fixture [(seattle_url, ok seattle_points)]) seattle seattle_west []
          = (Inr ''No Forecast Data Found'', ?w2)"
    by blast
  ultimately show ?thesis by (simp only:)
qed

text \<open>
  Claim C6. When the alerts fetch gives a mapping whose \<open>features\<close> is the empty list,
  \<open>get_alerts\<close> returns \<open>No active alerts for this state\<close>.
\<close>

theorem get_alerts_no_alerts:
  assumes "get_weather_data client (alerts_url state) w = (Inr data, w1)"
    and "field data ''features'' = Some (JList [])"
  shows "get_alerts client state w = (Inr ''No active alerts for this state'', w1)"
  using assms(2)
  by (simp add: get_alerts_fetched [OF assms(1)] field_py_in field_is_mapping
      field_truthy field_subscript)

theorem get_alerts_no_alerts_witness:
  "get_alerts (fixture [(wa_url, ok (JDict [(''features'', JList [])]))]) ''WA'' []
     = (Inr ''No active alerts for this state'', [request_for (alerts_url ''WA'')])"
proof -
  let ?d = "JDict [(''features'', JList [])]"
  have h1: "get_weather_data (fixture [(wa_url, ok ?d)]) (alerts_url ''WA'') []
            = (Inr ?d, [request_for (alerts_url ''WA'')])"
    by code_simp
  have h2: "field ?d ''features'' = Some (JList [])"
    by code_simp
  from get_alerts_no_alerts [OF h1 h2] show ?thesis .
qed

text \<open>
  Claim C7, amended. A points payload that counts as true and lacks
  \<open>properties.forecast\<close> makes \<open>get_forecast\<close> raise, and so does a forecast payload
  whose \<open>properties.periods\<close> is a list with, among its first \<open>min N 7\<close> periods, one
  that lacks a required field; no text is returned. The exception is \<open>KeyError\<close> or
  \<open>TypeError\<close>, and it is \<open>KeyError\<close> when the values subscripted are mappings: the
  points payload and its \<open>properties\<close>, the periods and their
  \<open>probabilityOfPrecipitation\<close>.
\<close>

theorem get_forecast_missing_field_raises:
  "(get_weather_data client (points_url latitude longitude) w = (Inr points_data, w1)
      \<and> truthy points_data
      \<and> Option.bind (field points_data ''properties'') (\<lambda>p. field p ''forecast'') = None \<longrightarrow>
      (\<exists>e. get_forecast client latitude longitude w = (Inl e, w1)
           \<and> (e = KeyError \<or> e = TypeError)
           \<and> (is_mapping points_data
                \<and> (\<forall>p. field points_data ''properties'' = Some p \<longrightarrow> is_mapping p) \<longrightarrow>
              e = KeyError)))
   \<and> (get_weather_data client (points_url latitude longitude) w = (Inr points_data, w1)
      \<and> Option.bind (field points_data ''properties'') (\<lambda>p. field p ''forecast'') = Some forecast_url
      \<and> get_weather_data client forecast_url w1 = (Inr forecast_data, w2)
      \<and> Option.bind (field forecast_data ''properties'') (\<lambda>p. field p ''periods'') = Some (JList periods)
      \<and> (\<exists>p\<in>set (take 7 periods). as_period p = None) \<longrightarrow>
      (\<exists>e. get_forecast client latitude longitude w = (Inl e, w2)
           \<and> (e = KeyError \<or> e = TypeError)
           \<and> ((\<forall>p\<in>set (take 7 periods). period_shaped p) \<longrightarrow> e = KeyError)))"
proof (intro conjI impI)
  assume a: "get_weather_data client (points_url latitude longitude) w = (Inr points_data, w1)
      \<and> truthy points_data
      \<and> Option.bind (field points_data ''properties'') (\<lambda>p. field p ''forecast'') = None"
  then have a1: "get_weather_data client (points_url latitude longitude) w = (Inr points_data, w1)"
    and a2: "truthy points_data"
    and a3: "Option.bind (field points_data ''properties'') (\<lambda>p. field p ''forecast'') = None"
    by simp_all
  from path_fails [OF a3] obtain e
    where e: "bindE (subscript points_data ''properties'') (\<lambda>p. subscript p ''forecast'') = Inl e"
      and kind: "e = KeyError \<or> e = TypeError"
    by blast
  have raised: "get_forecast client latitude longitude w = (Inl e, w1)"
    by (simp add: get_forecast_fetched [OF a1] a2 e)
  have "e = KeyError"
    if "is_mapping points_data \<and> (\<forall>p. field points_data ''properties'' = Some p \<longrightarrow> is_mapping p)"
    using path_missing [of points_data "''properties''" "''forecast''"] that a3 e by simp
  with raised kind
  show "\<exists>e. get_forecast client latitude longitude w = (Inl e, w1)
           \<and> (e = KeyError \<or> e = TypeError)
           \<and> (is_mapping points_data
                \<and> (\<forall>p. field points_data ''properties'' = Some p \<longrightarrow> is_mapping p) \<longrightarrow>
              e = KeyError)"
    by blast
next
  assume b: "get_weather_data client (points_url latitude longitude) w = (Inr points_data, w1)
      \<and> Option.bind (field points_data ''properties'') (\<lambda>p. field p ''forecast'') = Some forecast_url
      \<and> get_weather_data client forecast_url w1 = (Inr forecast_data, w2)
      \<and> Option.bind (field forecast_data ''properties'') (\<lambda>p. field p ''periods'') = Some (JList periods)
      \<and> (\<exists>p\<in>set (take 7 periods). as_period p = None)"
  then have b1: "get_weather_data client (points_url latitude longitude) w = (Inr points_data, w1)"
    and b2: "Option.bind (field points_data ''properties'') (\<lambda>p. field p ''forecast'') = Some forecast_url"
    and b3: "get_weather_data client forecast_url w1 = (Inr forecast_data, w2)"
    and b4: "Option.bind (field forecast_data ''properties'') (\<lambda>p. field p ''periods'') = Some (JList periods)"
    and b6: "\<exists>p\<in>set (take 7 periods). as_period p = None"
    by simp_all
  from forecast_loop_fails [OF b6] obtain e where e: "forecast_loop (take 7 periods) [] = Inl e"
    by blast
  have kind: "e = KeyError \<or> e = TypeError"
    using e by (rule forecast_loop_errors)
  have "truthy forecast_data"
    using b4 by (auto simp: field_truthy split: Option.bind_splits)
  then have raised: "get_forecast client latitude longitude w = (Inl e, w2)"
    by (simp add: get_forecast_forecast_fetched [OF b1 b2 b3] path_subscript [OF b4] e)
  have "e = KeyError" if "\<forall>p\<in>set (take 7 periods). period_shaped p"
    using forecast_loop_missing [OF that b6, of "[]"] e by simp
  with raised kind
  show "\<exists>e. get_forecast client latitude longitude w = (Inl e, w2)
           \<and> (e = KeyError \<or> e = TypeError)
           \<and> ((\<forall>p\<in>set (take 7 periods). period_shaped p) \<longrightarrow> e = KeyError)"
    by blast
qed

theorem get_forecast_missing_field_raises_witness:
  "get_forecast (fixture [(seattle_url, ok (JDict [(''status'', JInt 404)]))]) seattle seattle_west []
     = (Inl KeyError, [request_for (points_url seattle seattle_west)])
   \<and> get_forecast (fixture [(seattle_url, ok seattle_points), (grid_url, ok seattle_forecast_broken)])
        seattle seattle_west []
     = (Inl KeyError, [request_for (points_url seattle seattle_west), request_for (JStr grid_url)])"
proof -
  let ?d = "JDict [(''status'', JInt 404)]"
  let ?c = "fixture [(seattle_url, ok seattle_points), (grid_url, ok seattle_forecast_broken)]"
  let ?w1 = "[request_for (points_url seattle seattle_west)]"
  let ?w2 = "[request_for (points_url seattle seattle_west), request_for (JStr grid_url)]"
  have a1: "get_weather_data (fixture [(seattle_url, ok ?d)]) (points_url seattle seattle_west) []
            = (Inr ?d, ?w1)"
    by code_simp
  have a2: "truthy ?d"
    by code_simp
  have a3: "Option.bind (field ?d ''properties'') (\<lambda>p. field p ''forecast'') = None"
    by code_simp
  have a4: "is_mapping ?d \<and> (\<forall>p. field ?d ''properties'' = Some p \<longrightarrow> is_mapping p)"
    by (simp add: field_def is_mapping_def)
  have b1: "get_weather_data ?c (points_url seattle seattle_west) [] = (Inr seattle_points, ?w1)"
    by code_simp
  have b2: "Option.bind (field seattle_points ''properties'') (\<lambda>p. field p ''forecast'')
            = Some (JStr grid_url)"
    by code_simp
  have b3: "get_weather_data ?c (JStr grid_url) ?w1 = (Inr seattle_forecast_broken, ?w2)"
    by code_simp
  have b4: "Option.bind (field seattle_forecast_broken ''properties'') (\<lambda>p. field p ''periods'')
            = Some (JList broken_periods)"
    by code_simp
  have b5: "\<exists>p\<in>set (take 7 broken_periods). as_period p = None"
    by code_simp
  have b6: "\<forall>p\<in>set (take 7 broken_periods). period_shaped p"
    by code_simp
  from get_forecast_missing_field_raises
         [where client = "fixture [(seattle_url, ok ?d)]" and latitude = seattle
            and longitude = seattle_west and w = "[]" and points_data = ?d and ?w1.0 = ?w1]
       a1 a2 a3 a4
  have "get_forecast (fixture [(seattle_url, ok ?d)]) seattle seattle_west [] = (Inl KeyError, ?w1)"
    by metis
  moreover
  from get_forecast_missing_field_raises
         [where client = ?c and latitude = seattle and longitude = seattle_west and w = "[]"
            and points_data = seattle_points and ?w1.0 = ?w1 and forecast_url = "JStr grid_url"
            and forecast_data = seattle_forecast_broken and ?w2.0 = ?w2 and periods = broken_periods]
       b1 b2 b3 b4 b5 b6
  have "get_forecast ?c seattle seattle_west [] = (Inl KeyError, ?w2)"
    by metis
  ultimately show ?thesis by (simp only:)
qed

text \<open>
  Claim C7 as it was stated fails where the points payload is the empty mapping: it is
  not \<open>None\<close> and has no \<open>properties.forecast\<close>, and \<open>get_forecast\<close> answers with the
  fixed text \<open>No Data Found\<close>.
\<close>

theorem get_forecast_empty_points_counterexample:
  "get_weather_data (fixture [(seattle_url, ok (JDict []))]) (points_url seattle seattle_west) []
     = (Inr (JDict []), [request_for (points_url seattle seattle_west)])
   \<and> JDict [] \<noteq> JNull
   \<and> field (JDict []) ''properties'' = None
   \<and> get_forecast (fixture [(seattle_url, ok (JDict []))]) seattle seattle_west []
     = (Inr ''No Data Found'', [request_for (points_url seattle seattle_west)])"
  by code_simp

text \<open>
  Claim C8. The text \<open>get_alerts\<close> returns is determined by the state code and the result
  of its fetch, and the text \<open>get_forecast\<close> returns by the coordinates and the results of
  its two fetches (of the points URL, and of the forecast URL the points payload gives):
  two runs, from any two worlds and with any two clients, that are given the same
  arguments and get the same fetch results return the same. (\<open>format_alert\<close> takes the
  feature and nothing else, and is a function of it.)
\<close>

theorem orchestrators_deterministic:
  "(fst (get_weather_data c1 (alerts_url state) w1) = fst (get_weather_data c2 (alerts_url state) w2) \<longrightarrow>
      fst (get_alerts c1 state w1) = fst (get_alerts c2 state w2))
   \<and> (fst (get_weather_data c1 (points_url latitude longitude) w1)
        = fst (get_weather_data c2 (points_url latitude longitude) w2)
      \<and> (\<forall>points_data forecast_url.
            fst (get_weather_data c1 (points_url latitude longitude) w1) = Inr points_data
            \<and> Option.bind (field points_data ''properties'') (\<lambda>p. field p ''forecast'')
                = Some forecast_url \<longrightarrow>
            fst (get_weather_data c1 forecast_url (w1 @ [request_for (points_url latitude longitude)]))
            = fst (get_weather_data c2 forecast_url (w2 @ [request_for (points_url latitude longitude)]))) \<longrightarrow>
      fst (get_forecast c1 latitude longitude w1) = fst (get_forecast c2 latitude longitude w2))"
proof (intro conjI impI)
  assume eq: "fst (get_weather_data c1 (alerts_url state) w1)
              = fst (get_weather_data c2 (alerts_url state) w2)"
  obtain r wa where g1: "get_weather_data c1 (alerts_url state) w1 = (r, wa)"
    by (cases "get_weather_data c1 (alerts_url state) w1")
  obtain r' wb where g2: "get_weather_data c2 (alerts_url state) w2 = (r', wb)"
    by (cases "get_weather_data c2 (alerts_url state) w2")
  from eq g1 g2 have same: "r' = r" by simp
  show "fst (get_alerts c1 state w1) = fst (get_alerts c2 state w2)"
  proof (cases r)
    case (Inl e)
    with g1 g2 same show ?thesis by (simp add: get_alerts_raised)
  next
    case (Inr data)
    with g1 g2 same show ?thesis by (simp add: get_alerts_fetched)
  qed
next
  let ?p = "points_url latitude longitude"
  assume eq: "fst (get_weather_data c1 ?p w1) = fst (get_weather_data c2 ?p w2)
      \<and> (\<forall>points_data forecast_url.
            fst (get_weather_data c1 ?p w1) = Inr points_data
            \<and> Option.bind (field points_data ''properties'') (\<lambda>p. field p ''forecast'')
                = Some forecast_url \<longrightarrow>
            fst (get_weather_data c1 forecast_url (w1 @ [request_for ?p]))
            = fst (get_weather_data c2 forecast_url (w2 @ [request_for ?p])))"
  obtain r wa where g1: "get_weather_data c1 ?p w1 = (r, wa)"
    by (cases "get_weather_data c1 ?p w1")
  obtain r' wb where g2: "get_weather_data c2 ?p w2 = (r', wb)"
    by (cases "get_weather_data c2 ?p w2")
  from eq g1 g2 have same: "r' = r" by simp
  have wa: "wa = w1 @ [request_for ?p]"
    using get_weather_data_world [of c1 ?p w1] g1 by simp
  have wb: "wb = w2 @ [request_for ?p]"
    using get_weather_data_world [of c2 ?p w2] g2 by simp
  show "fst (get_forecast c1 latitude longitude w1) = fst (get_forecast c2 latitude longitude w2)"
  proof (cases r)
    case (Inl e)
    with g1 g2 same show ?thesis by (simp add: get_forecast_raised)
  next
    case (Inr points_data)
    note pd = this
    show ?thesis
    proof (cases "bindE (subscript points_data ''properties'') (\<lambda>p. subscript p ''forecast'')")
      case (Inl e)
      with g1 g2 same pd show ?thesis by (simp add: get_forecast_fetched)
    next
      case (Inr forecast_url)
      then have path: "Option.bind (field points_data ''properties'') (\<lambda>p. field p ''forecast'')
                       = Some forecast_url"
        by (auto simp: bindE_Inr_iff dest!: subscript_field)
      obtain s wc where h1: "get_weather_data c1 forecast_url wa = (s, wc)"
        by (cases "get_weather_data c1 forecast_url wa")
      obtain s' wd where h2: "get_weather_data c2 forecast_url wb = (s', wd)"
        by (cases "get_weather_data c2 forecast_url wb")
      from eq g1 pd path
      have "fst (get_weather_data c1 forecast_url (w1 @ [request_for ?p]))
            = fst (get_weather_data c2 forecast_url (w2 @ [request_for ?p]))"
        by simp
      with h1 h2 wa wb have "s' = s"
        by simp
      with g1 g2 same pd Inr h1 h2 show ?thesis
        by (cases s) (simp_all add: get_forecast_fetched)
    qed
  qed
qed

theorem orchestrators_deterministic_witness:
  "fst (get_alerts (fixture [(wa_url, ok wa_alerts)]) ''WA'' [])
     = fst (get_alerts (fixture [(wa_url, ok wa_alerts)]) ''WA'' [request_for (JStr grid_url)])
   \<and> fst (get_forecast (fixture [(seattle_url, ok seattle_points), (grid_url, ok seattle_forecast)])
            seattle seattle_west [])
     = fst (get_forecast (fixture [(seattle_url, ok seattle_points), (grid_url, ok seattle_forecast)])
            seattle seattle_west [request_for (alerts_url ''WA'')])"
proof -
  let ?a = "fixture [(wa_url, ok wa_alerts)]"
  let ?c = "fixture [(seattle_url, ok seattle_points), (grid_url, ok seattle_forecast)]"
  have independent: "fst (get_weather_data (fixture t) url w) = fst (get_weather_data (fixture t) url w')"
    for t url w w'
    by (simp add: get_weather_data_def fixture_def Let_def)
  from orchestrators_deterministic
         [where ?c1.0 = ?a and ?c2.0 = ?a and state = "''WA''"
            and ?w1.0 = "[]" and ?w2.0 = "[request_for (JStr grid_url)]"]
       independent
  have "fst (get_alerts ?a ''WA'' []) = fst (get_alerts ?a ''WA'' [request_for (JStr grid_url)])"
    by blast
  moreover
  from orchestrators_deterministic
         [where ?c1.0 = ?c and ?c2.0 = ?c and latitude = seattle and longitude = seattle_west
            and ?w1.0 = "[]" and ?w2.0 = "[request_for (alerts_url ''WA'')]"]
       independent
  have "fst (get_forecast ?c seattle seattle_west [])
        = fst (get_forecast ?c seattle seattle_west [request_for (alerts_url ''WA'')])"
    by blast
  ultimately show ?thesis by (simp only:)
qed

text \<open>
  Claim C9. \<open>format_alert\<close> raises \<open>KeyError\<close> on a feature mapping without the key
  \<open>properties\<close>, where a block of fallback texts could have been expected. Hence
  \<open>get_alerts\<close> raises, and returns no text, when the list of features has such a
  feature; the exception is \<open>KeyError\<close> when the features are mappings whose
  \<open>properties\<close>, where they have it, is a mapping.
\<close>

theorem format_alert_without_properties:
  "(is_mapping feature \<and> field feature ''properties'' = None \<longrightarrow>
      format_alert feature = Inl KeyError)
   \<and> (get_weather_data client (alerts_url state) w = (Inr data, w1)
      \<and> field data ''features'' = Some (JList fs)
      \<and> (\<exists>f\<in>set fs. is_mapping f \<and> field f ''properties'' = None) \<longrightarrow>
      (\<exists>e. get_alerts client state w = (Inl e, w1)
           \<and> ((\<forall>f\<in>set fs. feature_shaped f) \<longrightarrow> e = KeyError)))"
proof (intro conjI impI)
  assume "is_mapping feature \<and> field feature ''properties'' = None"
  then show "format_alert feature = Inl KeyError"
    by (simp add: format_alert_missing)
next
  assume b: "get_weather_data client (alerts_url state) w = (Inr data, w1)
      \<and> field data ''features'' = Some (JList fs)
      \<and> (\<exists>f\<in>set fs. is_mapping f \<and> field f ''properties'' = None)"
  then have b1: "get_weather_data client (alerts_url state) w = (Inr data, w1)"
    and b2: "field data ''features'' = Some (JList fs)"
    and b4: "\<exists>f\<in>set fs. is_mapping f \<and> field f ''properties'' = None"
    by simp_all
  from b4 have "\<exists>f\<in>set fs. \<exists>e. format_alert f = Inl e"
    by (auto intro: format_alert_missing)
  from mapE_fails [OF this] obtain e where e: "mapE format_alert fs = Inl e"
    by blast
  from b4 have "fs \<noteq> []" by auto
  then have raised: "get_alerts client state w = (Inl e, w1)"
    using b2
    by (simp add: get_alerts_fetched [OF b1] field_py_in field_is_mapping
        field_truthy field_subscript e)
  have "e = KeyError" if "\<forall>f\<in>set fs. feature_shaped f"
  proof -
    from b4 have "\<exists>f\<in>set fs. field f ''properties'' = None" by auto
    from mapE_format_alert_missing [OF that this] e show ?thesis by simp
  qed
  with raised
  show "\<exists>e. get_alerts client state w = (Inl e, w1)
           \<and> ((\<forall>f\<in>set fs. feature_shaped f) \<longrightarrow> e = KeyError)"
    by blast
qed

theorem format_alert_without_properties_witness:
  "format_alert (JDict [(''id'', JStr ''a2'')]) = Inl KeyError
   \<and> get_alerts (fixture [(wa_url, ok wa_alerts_broken)]) ''WA'' []
     = (Inl KeyError, [request_for (alerts_url ''WA'')])"
proof -
  let ?f = "JDict [(''id'', JStr ''a2'')]"
  let ?fs = "[JDict [(''properties'', JDict [(''event'', JStr ''Flood Watch'')])], ?f]"
  let ?c = "fixture [(wa_url, ok wa_alerts_broken)]"
  have a: "is_mapping ?f \<and> field ?f ''properties'' = None"
    by code_simp
  have b1: "get_weather_data ?c (alerts_url ''WA'') []
            = (Inr wa_alerts_broken, [request_for (alerts_url ''WA'')])"
    by code_simp
  have b2: "field wa_alerts_broken ''features'' = Some (JList ?fs)"
    by code_simp
  have b3: "\<exists>f\<in>set ?fs. is_mapping f \<and> field f ''properties'' = None"
    by code_simp
  have b4: "\<forall>f\<in>set ?fs. feature_shaped f"
    by code_simp
  from format_alert_without_properties [where feature = ?f] a
  have "format_alert ?f = Inl KeyError"
    by blast
  moreover
  from format_alert_without_properties
         [where client = ?c and state = "''WA''" and w = "[]" and data = wa_alerts_broken
            and ?w1.0 = "[request_for (alerts_url ''WA'')]" and fs = ?fs]
       b1 b2 b3 b4
  have "get_alerts ?c ''WA'' [] = (Inl KeyError, [request_for (alerts_url ''WA'')])"
    by metis
  ultimately show ?thesis by (simp only:)
qed

text \<open>
  Claim C10. A fetch that succeeds with a payload that counts as false (\<open>{}\<close>, \<open>[]\<close>,
  the empty string, zero, \<open>false\<close>, \<open>null\<close>) is answered like a failed fetch:
  \<open>get_alerts\<close> returns \<open>Unable to fetch alerts!\<close>, \<open>get_forecast\<close> returns
  \<open>No Data Found\<close> for the points fetch and \<open>No Forecast Data Found\<close> for the forecast
  fetch.
\<close>

theorem falsy_payload_as_failure:
  "(fetched (client w (request_for (alerts_url state))) = Some d \<and> \<not> truthy d \<longrightarrow>
      fst (get_alerts client state w) = Inr ''Unable to fetch alerts!'')
   \<and> (fetched (client w (request_for (points_url latitude longitude))) = Some d \<and> \<not> truthy d \<longrightarrow>
      fst (get_forecast client latitude longitude w) = Inr ''No Data Found'')
   \<and> (get_weather_data client (points_url latitude longitude) w = (Inr points_data, w1)
      \<and> Option.bind (field points_data ''properties'') (\<lambda>p. field p ''forecast'') = Some forecast_url
      \<and> fetched (client w1 (request_for forecast_url)) = Some d \<and> \<not> truthy d \<longrightarrow>
      fst (get_forecast client latitude longitude w) = Inr ''No Forecast Data Found'')"
proof (intro conjI impI)
  assume a: "fetched (client w (request_for (alerts_url state))) = Some d \<and> \<not> truthy d"
  then have "get_weather_data client (alerts_url state) w
             = (Inr d, w @ [request_for (alerts_url state)])"
    by (simp add: get_weather_data_fetched)
  then show "fst (get_alerts client state w) = Inr ''Unable to fetch alerts!''"
    using a by (simp add: get_alerts_fetched)
next
  assume b: "fetched (client w (request_for (points_url latitude longitude))) = Some d \<and> \<not> truthy d"
  then have "get_weather_data client (points_url latitude longitude) w
             = (Inr d, w @ [request_for (points_url latitude longitude)])"
    by (simp add: get_weather_data_fetched)
  then show "fst (get_forecast client latitude longitude w) = Inr ''No Data Found''"
    using b by (simp add: get_forecast_fetched)
next
  assume c: "get_weather_data client (points_url latitude longitude) w = (Inr points_data, w1)
      \<and> Option.bind (field points_data ''properties'') (\<lambda>p. field p ''forecast'') = Some forecast_url
      \<and> fetched (client w1 (request_for forecast_url)) = Some d \<and> \<not> truthy d"
  then have c1: "get_weather_data client (points_url latitude longitude) w = (Inr points_data, w1)"
    and c2: "Option.bind (field points_data ''properties'') (\<lambda>p. field p ''forecast'') = Some forecast_url"
    and c3: "fetched (client w1 (request_for forecast_url)) = Some d"
    and c4: "\<not> truthy d"
    by simp_all
  have c5: "get_weather_data client forecast_url w1 = (Inr d, w1 @ [request_for forecast_url])"
    using c3 by (rule get_weather_data_fetched)
  show "fst (get_forecast client latitude longitude w) = Inr ''No Forecast Data Found''"
    by (simp add: get_forecast_forecast_fetched [OF c1 c2 c5] c4)
qed

theorem falsy_payload_as_failure_witness:
  "fetched (fixture [(wa_url, ok (JDict []))] [] (request_for (alerts_url ''WA''))) = Some (JDict [])
   \<and> fst (get_alerts (fixture [(wa_url, ok (JDict []))]) ''WA'' []) = Inr ''Unable to fetch alerts!''
   \<and> fst (get_forecast (fixture [(seattle_url, ok (JDict []))]) seattle seattle_west [])
     = Inr ''No Data Found''
   \<and> fst (get_forecast (fixture [(seattle_url, ok seattle_points), (grid_url, ok (JDict []))])
            seattle seattle_west [])
     = Inr ''No Forecast Data Found''"
proof -
  let ?e = "JDict []"
  let ?c = "fixture [(seattle_url, ok seattle_points), (grid_url, ok ?e)]"
  let ?w1 = "[request_for (points_url seattle seattle_west)]"
  have a: "fetched (fixture [(wa_url, ok ?e)] [] (request_for (alerts_url ''WA''))) = Some ?e"
    by code_simp
  have b: "fetched (fixture [(seattle_url, ok ?e)] [] (request_for (points_url seattle seattle_west)))
           = Some ?e"
    by code_simp
  have c1: "get_weather_data ?c (points_url seattle seattle_west) [] = (Inr seattle_points, ?w1)"
    by code_simp
  have c2: "Option.bind (field seattle_points ''properties'') (\<lambda>p. field p ''forecast'')
            = Some (JStr grid_url)"
    by code_simp
  have c3: "fetched (?c ?w1 (request_for (JStr grid_url))) = Some ?e"
    by code_simp
  have falsy: "\<not> truthy ?e"
    by simp
  from falsy_payload_as_failure
         [where client = "fixture [(wa_url, ok ?e)]" and w = "[]" and state = "''WA''" and d = ?e]
       a falsy
  have "fst (get_alerts (fixture [(wa_url, ok ?e)]) ''WA'' []) = Inr ''Unable to fetch alerts!''"
    by blast
  moreover
  from falsy_payload_as_failure
         [where client = "fixture [(seattle_url, ok ?e)]" and w = "[]" and d = ?e
            and latitude = seattle and longitude = seattle_west]
       b falsy
  have "fst (get_forecast (fixture [(seattle_url, ok ?e)]) seattle seattle_west [])
        = Inr ''No Data Found''"
    by blast
  moreover
  from falsy_payload_as_failure
         [where client = ?c and w = "[]" and d = ?e and latitude = seattle
            and longitude = seattle_west and points_data = seattle_points and ?w1.0 = ?w1
            and forecast_url = "JStr grid_url"]
       c1 c2 c3 falsy
  have "fst (get_forecast ?c seattle seattle_west []) = Inr ''No Forecast Data Found''"
    by blast
  ultimately show ?thesis using a by (simp only: simp_thms)
qed

end
